theory Spec2Isabelle
  imports Main
begin

section \<open>Python values used by the network builders\<close>

text \<open>
  A Python \<open>str\<close> is a sequence of Unicode code points. The block builders compute
  \<open>chr(ord('a') + block)\<close>, which leaves the 8-bit range of \<^typ>\<open>char\<close> for
  \<open>block \<ge> 159\<close>, so a string is modelled as the list of its code points; a literal of
  the source is written \<open>lit ''...''\<close>.
\<close>

type_synonym pystr = "nat list"

definition lit :: "string \<Rightarrow> pystr" where
  "lit s = map of_char s"

datatype error = ValueError | OverflowError | IndexError | AssertionError

text \<open>
  \<open>chr(i)\<close>: the one-character string of code point \<open>i\<close>. The argument is converted
  to a C \<open>int\<close> first, which raises OverflowError outside \<open>[-2^31, 2^31)\<close>; inside
  that range, ValueError outside \<open>range(0x110000)\<close>.
\<close>

definition py_chr :: "int \<Rightarrow> error + pystr" where
  "py_chr i =
     (if i < - 2147483648 \<or> 2147483647 < i then Inl OverflowError
      else if 0 \<le> i \<and> i < 1114112 then Inr [nat i]
      else Inl ValueError)"

text \<open>\<open>ord('a')\<close>.\<close>

definition ord_a :: int where
  "ord_a = int (of_char (CHR ''a''))"

text \<open>\<open>str(n)\<close> of an integer (also what an f-string field \<open>{n}\<close> formats to):
  decimal digits, most significant first, with a leading minus sign for a negative number.\<close>

fun str_nat :: "nat \<Rightarrow> pystr" where
  "str_nat n = (if n < 10 then [48 + n] else str_nat (n div 10) @ [48 + n mod 10])"

declare str_nat.simps [simp del]

definition py_str :: "int \<Rightarrow> pystr" where
  "py_str i = (if i < 0 then lit ''-'' @ str_nat (nat (- i)) else str_nat (nat i))"

text \<open>\<open>xs[i]\<close> for an index \<open>i \<ge> 0\<close>: IndexError past the end.\<close>

definition py_index :: "'a list \<Rightarrow> nat \<Rightarrow> error + 'a" where
  "py_index xs i = (if i < length xs then Inr (xs ! i) else Inl IndexError)"

text \<open>\<open>range(n)\<close>: empty for \<open>n \<le> 0\<close>.\<close>

definition py_range :: "int \<Rightarrow> int list" where
  "py_range n = map int [0..<nat n]"

text \<open>\<open>s.startswith(p)\<close>.\<close>

definition startswith :: "pystr \<Rightarrow> pystr \<Rightarrow> bool" where
  "startswith s p = (take (length p) s = p)"

section \<open>Layers and symbolic tensors\<close>

text \<open>
  The layer classes are external collaborators; a layer is recorded by its class and the
  arguments the builders pass to its constructor. Constant arguments of the source
  (\<open>use_bias=False\<close>, \<open>spectral_parametrization=False\<close>, \<open>epsilon=1e-5\<close>,
  \<open>gamma=[0.25, 0.25]\<close>) are not repeated in the constructor fields.
  An argument is an integer or a tuple of integers; an optional argument that the call
  leaves out is \<open>None\<close>.
\<close>

datatype arg = IntV int | TupleV "int list"

datatype layer =
    ZeroPadding3D int pystr
      \<comment> \<open>padding, name\<close>
  | ComplexConv3D int arg "arg option" pystr
      \<comment> \<open>filters, kernel size, strides, name\<close>
  | ComplexConv2D int arg "arg option" pystr pystr
      \<comment> \<open>filters, kernel size, strides, padding, name\<close>
  | ComplexBatchNormalization int pystr
      \<comment> \<open>axis, name\<close>
  | LayerActivation pystr pystr
      \<comment> \<open>\<open>layer_activation(x, activation, name)\<close>: activation, name\<close>
  | Add pystr
  | ComplexMaxPooling2D "(arg \<times> arg \<times> pystr) option" pystr
      \<comment> \<open>(pool size, strides, padding) when given, name\<close>
  | ComplexAveragePooling2D "(arg \<times> arg \<times> pystr) option" pystr
  | GlobalAveragePooling2D pystr
  | SpectralPooling2D pystr
  | Flatten
  | ComplexDense int pystr pystr
      \<comment> \<open>units, activation, name\<close>
  | Dense int pystr pystr


text \<open>
  A tensor of the functional API is symbolic: it is the network input or the result of
  calling a layer on earlier tensors.
\<close>

datatype tensor = Input "int list" | Apply layer "tensor list"

text \<open>
  What the builders read from the framework: the channel ordering
  (\<open>keras.backend.image_data_format()\<close>) and the rank of a tensor (\<open>K.ndim\<close>).
\<close>

record env =
  image_data_format :: pystr
  ndim :: "tensor \<Rightarrow> int"

text \<open>\<open>axis = -1 if keras.backend.image_data_format() == "channels_last" else 1\<close>.\<close>

definition channel_axis :: "env \<Rightarrow> int" where
  "channel_axis e = (if image_data_format e = lit ''channels_last'' then - 1 else 1)"

text \<open>
  Creating a layer and calling it on tensors: the result is the new symbolic tensor, and
  the layer is appended to the layers created so far.
\<close>

definition call :: "layer \<Rightarrow> tensor list \<Rightarrow> layer list \<Rightarrow> tensor \<times> layer list" where
  "call l xs created_layers = (Apply l xs, created_layers @ [l])"

text \<open>
  Modelled from the spec: the helper \<open>layer_activation(x, activation, name)\<close> of the
  module \<open>layers.activations\<close> is not among the sources. The spec describes it as an
  activation-selection helper that maps an activation name string to a concrete activation
  transform, with the call contract tensor in, tensor out; the activation name of a block
  specification is any string. So the helper returns a tensor for every activation name,
  and the call is recorded as one layer carrying the activation name and the layer name.
\<close>

definition layer_activation ::
  "tensor \<Rightarrow> pystr \<Rightarrow> pystr \<Rightarrow> layer list \<Rightarrow> tensor \<times> layer list" where
  "layer_activation x activation name created_layers =
     call (LayerActivation activation name) [x] created_layers"

section \<open>Residual blocks (resnet\_blocks\_3d.py)\<close>

text \<open>
  Stride resolution, lines 53--57 of \<open>basic_3d\<close> and, verbatim, 136--140 of
  \<open>bottleneck_3d\<close>:
  \<^verbatim>\<open>
    if stride is None:
        if block != 0 or stage == 0:
            stride = 1
        else:
            stride = 2
  \<close>
\<close>

definition resolve_stride :: "int option \<Rightarrow> int \<Rightarrow> int \<Rightarrow> int" where
  "resolve_stride stride stage block =
     (case stride of
        None \<Rightarrow> (if block \<noteq> 0 \<or> stage = 0 then 1 else 2)
      | Some s \<Rightarrow> s)"

text \<open>
  Block character, lines 61--64 of \<open>basic_3d\<close> and 144--147 of \<open>bottleneck_3d\<close>:
  \<^verbatim>\<open>
    if block > 0 and numerical_name:
        block_char = f'b{block}'
    else:
        block_char = chr(ord('a') + block)
  \<close>
\<close>

definition resolve_block_char :: "int \<Rightarrow> bool \<Rightarrow> error + pystr" where
  "resolve_block_char block numerical_name =
     (if block > 0 \<and> numerical_name then Inr (lit ''b'' @ py_str block)
      else py_chr (ord_a + block))"

text \<open>
  A block builder returns the closure \<open>f\<close>; the closure maps the input tensor to the
  output tensor and creates its layers in the order of the source. The keyword
  dictionary of the closure is empty in every call of this repository and is left out.
\<close>

type_synonym block_closure = "tensor \<Rightarrow> layer list \<Rightarrow> tensor \<times> layer list"

definition basic_3d ::
  "env \<Rightarrow> int \<Rightarrow> int \<Rightarrow> int \<Rightarrow> arg \<Rightarrow> bool \<Rightarrow> int option \<Rightarrow> pystr \<Rightarrow> error + block_closure" where
  "basic_3d e filters stage block kernel_size numerical_name stride activation =
     (let stride = resolve_stride stride stage block;
          axis = channel_axis e
      in case resolve_block_char block numerical_name of
           Inl err \<Rightarrow> Inl err
         | Inr block_char \<Rightarrow>
             let stage_char = py_str (stage + 2) in
             Inr (\<lambda>inputs created_layers.
               let (outputs, created_layers) =
                     call (ZeroPadding3D 1
                            (lit ''padding'' @ stage_char @ block_char @ lit ''_branch2a''))
                       [inputs] created_layers;
                   (outputs, created_layers) =
                     call (ComplexConv3D filters kernel_size (Some (IntV stride))
                            (lit ''res'' @ stage_char @ block_char @ lit ''_branch2a''))
                       [outputs] created_layers;
                   (outputs, created_layers) =
                     call (ComplexBatchNormalization axis
                            (lit ''bn'' @ stage_char @ block_char @ lit ''_branch2a''))
                       [outputs] created_layers;
                   (outputs, created_layers) =
                     layer_activation outputs activation
                            (lit ''res'' @ stage_char @ block_char @ lit ''_branch2a_'' @ activation)
                       created_layers;
                   (outputs, created_layers) =
                     call (ZeroPadding3D 1
                            (lit ''padding'' @ stage_char @ block_char @ lit ''_branch2b''))
                       [outputs] created_layers;
                   (outputs, created_layers) =
                     call (ComplexConv3D filters kernel_size None
                            (lit ''res'' @ stage_char @ block_char @ lit ''_branch2b''))
                       [outputs] created_layers;
                   (outputs, created_layers) =
                     call (ComplexBatchNormalization axis
                            (lit ''bn'' @ stage_char @ block_char @ lit ''_branch2b''))
                       [outputs] created_layers;
                   (shortcut, created_layers) =
                     (if block = 0 then
                        let (shortcut, created_layers) =
                              call (ComplexConv3D filters (TupleV [1, 1]) (Some (IntV stride))
                                     (lit ''res'' @ stage_char @ block_char @ lit ''_branch1''))
                                [inputs] created_layers
                        in call (ComplexBatchNormalization axis
                                  (lit ''bn'' @ stage_char @ block_char @ lit ''_branch1''))
                             [shortcut] created_layers
                      else (inputs, created_layers));
                   (outputs, created_layers) =
                     call (Add (lit ''res'' @ stage_char @ block_char))
                       [outputs, shortcut] created_layers
               in layer_activation outputs activation
                         (lit ''res'' @ stage_char @ block_char @ lit ''_'' @ activation)
                    created_layers))"

definition bottleneck_3d ::
  "env \<Rightarrow> int \<Rightarrow> int \<Rightarrow> int \<Rightarrow> arg \<Rightarrow> bool \<Rightarrow> int option \<Rightarrow> pystr \<Rightarrow> error + block_closure" where
  "bottleneck_3d e filters stage block kernel_size numerical_name stride activation =
     (let stride = resolve_stride stride stage block;
          axis = channel_axis e
      in case resolve_block_char block numerical_name of
           Inl err \<Rightarrow> Inl err
         | Inr block_char \<Rightarrow>
             let stage_char = py_str (stage + 2) in
             Inr (\<lambda>inputs created_layers.
               let (outputs, created_layers) =
                     call (ComplexConv3D filters (IntV 1) (Some (IntV stride))
                            (lit ''res'' @ stage_char @ block_char @ lit ''_branch2a''))
                       [inputs] created_layers;
                   (outputs, created_layers) =
                     call (ComplexBatchNormalization axis
                            (lit ''bn'' @ stage_char @ block_char @ lit ''_branch2a''))
                       [outputs] created_layers;
                   (outputs, created_layers) =
                     layer_activation outputs activation
                            (lit ''res'' @ stage_char @ block_char @ lit ''_branch2a_'' @ activation)
                       created_layers;
                   (outputs, created_layers) =
                     call (ZeroPadding3D 1
                            (lit ''padding'' @ stage_char @ block_char @ lit ''_branch2b''))
                       [outputs] created_layers;
                   (outputs, created_layers) =
                     call (ComplexConv3D filters kernel_size None
                            (lit ''res'' @ stage_char @ block_char @ lit ''_branch2b''))
                       [outputs] created_layers;
                   (outputs, created_layers) =
                     call (ComplexBatchNormalization axis
                            (lit ''bn'' @ stage_char @ block_char @ lit ''_branch2b''))
                       [outputs] created_layers;
                   (outputs, created_layers) =
                     layer_activation outputs activation
                            (lit ''res'' @ stage_char @ block_char @ lit ''_branch2b_'' @ activation)
                       created_layers;
                   (outputs, created_layers) =
                     call (ComplexConv3D (filters * 4) (IntV 1) (Some (TupleV [1, 1]))
                            (lit ''res'' @ stage_char @ block_char @ lit ''_branch2c''))
                       [outputs] created_layers;
                   (outputs, created_layers) =
                     call (ComplexBatchNormalization axis
                            (lit ''bn'' @ stage_char @ block_char @ lit ''_branch2c''))
                       [outputs] created_layers;
                   (shortcut, created_layers) =
                     (if block = 0 then
                        let (shortcut, created_layers) =
                              call (ComplexConv3D (filters * 4) (TupleV [1, 1]) (Some (IntV stride))
                                     (lit ''res'' @ stage_char @ block_char @ lit ''_branch1''))
                                [inputs] created_layers
                        in call (ComplexBatchNormalization axis
                                  (lit ''bn'' @ stage_char @ block_char @ lit ''_branch1''))
                             [shortcut] created_layers
                      else (inputs, created_layers));
                   (outputs, created_layers) =
                     call (Add (lit ''res'' @ stage_char @ block_char))
                       [outputs, shortcut] created_layers
               in layer_activation outputs activation
                         (lit ''res'' @ stage_char @ block_char @ lit ''_'' @ activation)
                    created_layers))"

section \<open>Network assembler (resnet\_models\_2d.py)\<close>

text \<open>
  The assembler calls \<open>block_func(n_filters, stage_id, block_id, numerical_name=...,
  activation=...)\<close> and applies the returned closure to the current tensor. The block
  function is an argument of the assembler; the builders above are passed with their
  defaults \<open>kernel_size=3\<close> and \<open>stride=None\<close>.
\<close>

type_synonym block_func = "int \<Rightarrow> int \<Rightarrow> int \<Rightarrow> bool \<Rightarrow> pystr \<Rightarrow> error + block_closure"

definition with_defaults ::
  "(int \<Rightarrow> int \<Rightarrow> int \<Rightarrow> arg \<Rightarrow> bool \<Rightarrow> int option \<Rightarrow> pystr \<Rightarrow> error + block_closure) \<Rightarrow> block_func" where
  "with_defaults builder =
     (\<lambda>filters stage block numerical_name activation.
        builder filters stage block (IntV 3) numerical_name None activation)"

text \<open>
  The state of a construction: the layers created so far, in order, and the arguments of
  every call of the block function so far, in order.
\<close>

record block_args =
  arg_filters :: int
  arg_stage :: int
  arg_block :: int
  arg_numerical_name :: bool
  arg_activation :: pystr

record build =
  created :: "layer list"
  calls :: "block_args list"

definition create :: "layer \<Rightarrow> tensor list \<Rightarrow> build \<Rightarrow> tensor \<times> build" where
  "create l xs st = (case call l xs (created st) of (t, ls) \<Rightarrow> (t, st\<lparr>created := ls\<rparr>))"

text \<open>The activation helper, run on the layers of the construction state.\<close>

definition activate :: "tensor \<Rightarrow> pystr \<Rightarrow> pystr \<Rightarrow> build \<Rightarrow> tensor \<times> build" where
  "activate x activation name st =
     (case layer_activation x activation name (created st) of
        (t, ls) \<Rightarrow> (t, st\<lparr>created := ls\<rparr>))"

text \<open>What \<open>keras.Model.__init__\<close> receives: the input and either the single
  classification output or the list of the stages' outputs.\<close>

datatype outputs = Single tensor | Stages "tensor list"

datatype model = Model tensor outputs

text \<open>
  Lines 75--85: the stem. \<open>pooling_func[0]\<close> is read after the first three layers
  exist; an unrecognised value takes neither branch.
\<close>

definition stem ::
  "env \<Rightarrow> tensor \<Rightarrow> pystr \<Rightarrow> int \<Rightarrow> pystr list \<Rightarrow> build \<Rightarrow> (error + tensor) \<times> build" where
  "stem e inputs activation n_filters pooling_func st =
     (let axis = channel_axis e;
          (x_complex, st) =
            create (ComplexConv2D n_filters (IntV 7) (Some (TupleV [2, 2])) (lit ''same'')
                     (lit ''conv1''))
              [inputs] st;
          (x_complex, st) =
            create (ComplexBatchNormalization axis (lit ''bn_conv1'')) [x_complex] st;
          (x_complex, st) =
            activate x_complex activation (lit ''conv1_'' @ activation) st
      in case py_index pooling_func 0 of
           Inl err \<Rightarrow> (Inl err, st)
         | Inr p0 \<Rightarrow>
             if p0 = lit ''max'' then
               (case create (ComplexMaxPooling2D
                               (Some (TupleV [3, 3], TupleV [2, 2], lit ''same'')) (lit ''pool1''))
                       [x_complex] st of
                  (x_complex, st) \<Rightarrow> (Inr x_complex, st))
             else if p0 = lit ''average'' then
               (case create (ComplexAveragePooling2D
                               (Some (TupleV [3, 3], TupleV [2, 2], lit ''same'')) (lit ''pool1''))
                       [x_complex] st of
                  (x_complex, st) \<Rightarrow> (Inr x_complex, st))
             else (Inr x_complex, st))"

text \<open>
  Lines 90--97: \<open>for block_id in range(iterations)\<close>, as a recursion over the block
  indices still to run. \<open>block_id > 0 and numerical_names[stage_id]\<close> reads the list only
  when \<open>block_id > 0\<close>.
\<close>

fun block_loop ::
  "block_func \<Rightarrow> pystr \<Rightarrow> bool list \<Rightarrow> int \<Rightarrow> nat \<Rightarrow> int list \<Rightarrow> tensor \<Rightarrow> build
     \<Rightarrow> (error + tensor) \<times> build" where
  "block_loop block_func activation numerical_names n_filters stage_id [] x_complex st =
     (Inr x_complex, st)"
| "block_loop block_func activation numerical_names n_filters stage_id (block_id # rest) x_complex st =
     (case (if block_id > 0 then py_index numerical_names stage_id else Inr False) of
        Inl err \<Rightarrow> (Inl err, st)
      | Inr numerical_name \<Rightarrow>
          let st = st\<lparr>calls := calls st @
                      [\<lparr>arg_filters = n_filters, arg_stage = int stage_id, arg_block = block_id,
                        arg_numerical_name = numerical_name, arg_activation = activation\<rparr>]\<rparr>
          in (case block_func n_filters (int stage_id) block_id numerical_name activation of
                Inl err \<Rightarrow> (Inl err, st)
              | Inr f \<Rightarrow>
                  (case f x_complex (created st) of
                     (x_complex, ls) \<Rightarrow>
                       block_loop block_func activation numerical_names n_filters stage_id rest
                         x_complex (st\<lparr>created := ls\<rparr>))))"

text \<open>
  Lines 89--101: \<open>for stage_id, iterations in enumerate(num_blocks)\<close>, as a recursion
  over the stages still to run, with the running stage index, filter count and output list.
\<close>

fun stage_loop ::
  "block_func \<Rightarrow> pystr \<Rightarrow> bool list \<Rightarrow> nat \<Rightarrow> int \<Rightarrow> int list \<Rightarrow> tensor \<Rightarrow> tensor list \<Rightarrow> build
     \<Rightarrow> (error + tensor \<times> tensor list) \<times> build" where
  "stage_loop block_func activation numerical_names stage_id n_filters [] x_complex outputs st =
     (Inr (x_complex, outputs), st)"
| "stage_loop block_func activation numerical_names stage_id n_filters (iterations # rest)
     x_complex outputs st =
     (case block_loop block_func activation numerical_names n_filters stage_id
             (py_range iterations) x_complex st of
        (Inl err, st) \<Rightarrow> (Inl err, st)
      | (Inr x_complex, st) \<Rightarrow>
          stage_loop block_func activation numerical_names (stage_id + 1) (n_filters * 2) rest
            x_complex (outputs @ [x_complex]) st)"

text \<open>Lines 104--126: the classification head, entered when \<open>include_top\<close> holds.\<close>

definition classifier_top ::
  "env \<Rightarrow> tensor \<Rightarrow> pystr list \<Rightarrow> int \<Rightarrow> pystr option \<Rightarrow> tensor \<Rightarrow> build
     \<Rightarrow> (error + model) \<times> build" where
  "classifier_top e inputs pooling_func classes output_activation x_complex st =
     (if \<not> classes > 0 then (Inl AssertionError, st)
      else case py_index pooling_func 1 of
        Inl err \<Rightarrow> (Inl err, st)
      | Inr p1 \<Rightarrow>
          let (x_complex, st) =
                (if p1 = lit ''global_average'' then
                   create (GlobalAveragePooling2D (lit ''pool5'')) [x_complex] st
                 else if p1 = lit ''complex_average'' then
                   create (ComplexAveragePooling2D None (lit ''pool5'')) [x_complex] st
                 else if p1 = lit ''complex_max'' then
                   create (ComplexMaxPooling2D None (lit ''pool5'')) [x_complex] st
                 else if p1 = lit ''spectral_average'' then
                   create (SpectralPooling2D (lit ''pool5'')) [x_complex] st
                 else (x_complex, st));
              output_activation =
                (case output_activation of None \<Rightarrow> lit ''softmax'' | Some a \<Rightarrow> a);
              (x_complex, st) =
                (if ndim e x_complex > 2 then create Flatten [x_complex] st else (x_complex, st));
              (x, st) =
                (if startswith output_activation (lit ''complex_'') then
                   let output_activation = drop (length (lit ''complex_'')) output_activation
                   in create (ComplexDense classes output_activation (lit ''fc'' @ py_str classes))
                        [x_complex] st
                 else
                   create (Dense classes output_activation (lit ''fc'' @ py_str classes))
                     [x_complex] st)
          in (Inr (Model inputs (Single x)), st))"

text \<open>Lines 87--129: everything after the stem.\<close>

definition stages_and_top ::
  "env \<Rightarrow> tensor \<Rightarrow> int list \<Rightarrow> block_func \<Rightarrow> pystr \<Rightarrow> int \<Rightarrow> pystr list \<Rightarrow> bool \<Rightarrow> int
     \<Rightarrow> bool list \<Rightarrow> pystr option \<Rightarrow> tensor \<Rightarrow> build \<Rightarrow> (error + model) \<times> build" where
  "stages_and_top e inputs num_blocks block_func activation n_filters pooling_func include_top
     classes numerical_names output_activation x_complex st =
     (case stage_loop block_func activation numerical_names 0 n_filters num_blocks x_complex [] st of
        (Inl err, st) \<Rightarrow> (Inl err, st)
      | (Inr (x_complex, outputs), st) \<Rightarrow>
          if include_top then
            classifier_top e inputs pooling_func classes output_activation x_complex st
          else (Inr (Model inputs (Stages outputs)), st))"

text \<open>
  \<open>ResNet2D.__init__\<close>. The result is the model handed to \<open>keras.Model.__init__\<close> or
  the exception raised, together with the state at that moment.
\<close>

definition ResNet2D ::
  "env \<Rightarrow> tensor \<Rightarrow> int list \<Rightarrow> block_func \<Rightarrow> pystr \<Rightarrow> int \<Rightarrow> pystr list \<Rightarrow> bool \<Rightarrow> int
     \<Rightarrow> bool list option \<Rightarrow> pystr option \<Rightarrow> (error + model) \<times> build" where
  "ResNet2D e inputs num_blocks block_func activation n_filters pooling_func include_top classes
     numerical_names output_activation =
     (let numerical_names =
            (case numerical_names of
               None \<Rightarrow> replicate (length num_blocks) True
             | Some ns \<Rightarrow> ns)
      in case stem e inputs activation n_filters pooling_func \<lparr>created = [], calls = []\<rparr> of
           (Inl err, st) \<Rightarrow> (Inl err, st)
         | (Inr x_complex, st) \<Rightarrow>
             stages_and_top e inputs num_blocks block_func activation n_filters pooling_func
               include_top classes numerical_names output_activation x_complex st)"


subsection \<open>Depth presets\<close>

text \<open>
  The presets default \<open>block_func\<close> to \<open>basic_2d\<close> or \<open>bottleneck_2d\<close> of the module
  \<open>resnet_blocks_2d\<close>, which is not among the sources; the two builders are taken as
  parameters. A \<open>block_func\<close> argument of \<open>None\<close> stands for a call that leaves the
  argument out, \<open>num_blocks\<close> and \<open>numerical_names\<close> are \<open>None\<close> as in Python.
\<close>

record blocks_2d =
  basic_2d :: block_func
  bottleneck_2d :: block_func

definition ResNet2D18 ::
  "blocks_2d \<Rightarrow> env \<Rightarrow> tensor \<Rightarrow> int list option \<Rightarrow> block_func option \<Rightarrow> pystr \<Rightarrow> int \<Rightarrow> pystr list
     \<Rightarrow> bool \<Rightarrow> int \<Rightarrow> bool list option \<Rightarrow> pystr option \<Rightarrow> (error + model) \<times> build" where
  "ResNet2D18 lib e inputs num_blocks block_func conv_activation n_filters pooling_func
     include_top classes numerical_names output_activation =
     (let block_func = (case block_func of None \<Rightarrow> basic_2d lib | Some f \<Rightarrow> f);
          num_blocks = (case num_blocks of None \<Rightarrow> [2, 2, 2, 2] | Some nb \<Rightarrow> nb)
      in ResNet2D e inputs num_blocks block_func conv_activation n_filters pooling_func
           include_top classes numerical_names output_activation)"

definition ResNet2D34 ::
  "blocks_2d \<Rightarrow> env \<Rightarrow> tensor \<Rightarrow> int list option \<Rightarrow> block_func option \<Rightarrow> pystr \<Rightarrow> int \<Rightarrow> pystr list
     \<Rightarrow> bool \<Rightarrow> int \<Rightarrow> bool list option \<Rightarrow> pystr option \<Rightarrow> (error + model) \<times> build" where
  "ResNet2D34 lib e inputs num_blocks block_func conv_activation n_filters pooling_func
     include_top classes numerical_names output_activation =
     (let block_func = (case block_func of None \<Rightarrow> basic_2d lib | Some f \<Rightarrow> f);
          num_blocks = (case num_blocks of None \<Rightarrow> [3, 4, 6, 3] | Some nb \<Rightarrow> nb)
      in ResNet2D e inputs num_blocks block_func conv_activation n_filters pooling_func
           include_top classes numerical_names output_activation)"

definition ResNet2D50 ::
  "blocks_2d \<Rightarrow> env \<Rightarrow> tensor \<Rightarrow> int list option \<Rightarrow> block_func option \<Rightarrow> pystr \<Rightarrow> int \<Rightarrow> pystr list
     \<Rightarrow> bool \<Rightarrow> int \<Rightarrow> bool list option \<Rightarrow> pystr option \<Rightarrow> (error + model) \<times> build" where
  "ResNet2D50 lib e inputs num_blocks block_func conv_activation n_filters pooling_func
     include_top classes numerical_names output_activation =
     (let block_func = (case block_func of None \<Rightarrow> bottleneck_2d lib | Some f \<Rightarrow> f);
          num_blocks = (case num_blocks of None \<Rightarrow> [3, 4, 6, 3] | Some nb \<Rightarrow> nb);
          numerical_names = Some [False, False, False, False]
      in ResNet2D e inputs num_blocks block_func conv_activation n_filters pooling_func
           include_top classes numerical_names output_activation)"

definition ResNet2D101 ::
  "blocks_2d \<Rightarrow> env \<Rightarrow> tensor \<Rightarrow> int list option \<Rightarrow> block_func option \<Rightarrow> pystr \<Rightarrow> int \<Rightarrow> pystr list
     \<Rightarrow> bool \<Rightarrow> int \<Rightarrow> bool list option \<Rightarrow> pystr option \<Rightarrow> (error + model) \<times> build" where
  "ResNet2D101 lib e inputs num_blocks block_func conv_activation n_filters pooling_func
     include_top classes numerical_names output_activation =
     (let block_func = (case block_func of None \<Rightarrow> bottleneck_2d lib | Some f \<Rightarrow> f);
          num_blocks = (case num_blocks of None \<Rightarrow> [3, 4, 23, 3] | Some nb \<Rightarrow> nb);
          numerical_names = Some [False, True, True, False]
      in ResNet2D e inputs num_blocks block_func conv_activation n_filters pooling_func
           include_top classes numerical_names output_activation)"

definition ResNet2D152 ::
  "blocks_2d \<Rightarrow> env \<Rightarrow> tensor \<Rightarrow> int list option \<Rightarrow> block_func option \<Rightarrow> pystr \<Rightarrow> int \<Rightarrow> pystr list
     \<Rightarrow> bool \<Rightarrow> int \<Rightarrow> bool list option \<Rightarrow> pystr option \<Rightarrow> (error + model) \<times> build" where
  "ResNet2D152 lib e inputs num_blocks block_func conv_activation n_filters pooling_func
     include_top classes numerical_names output_activation =
     (let block_func = (case block_func of None \<Rightarrow> bottleneck_2d lib | Some f \<Rightarrow> f);
          num_blocks = (case num_blocks of None \<Rightarrow> [3, 8, 36, 3] | Some nb \<Rightarrow> nb);
          numerical_names = Some [False, True, True, False]
      in ResNet2D e inputs num_blocks block_func conv_activation n_filters pooling_func
           include_top classes numerical_names output_activation)"

definition ResNet2D200 ::
  "blocks_2d \<Rightarrow> env \<Rightarrow> tensor \<Rightarrow> int list option \<Rightarrow> block_func option \<Rightarrow> pystr \<Rightarrow> int \<Rightarrow> pystr list
     \<Rightarrow> bool \<Rightarrow> int \<Rightarrow> bool list option \<Rightarrow> pystr option \<Rightarrow> (error + model) \<times> build" where
  "ResNet2D200 lib e inputs num_blocks block_func conv_activation n_filters pooling_func
     include_top classes numerical_names output_activation =
     (let block_func = (case block_func of None \<Rightarrow> bottleneck_2d lib | Some f \<Rightarrow> f);
          num_blocks = (case num_blocks of None \<Rightarrow> [3, 24, 36, 3] | Some nb \<Rightarrow> nb);
          numerical_names = Some [False, True, True, False]
      in ResNet2D e inputs num_blocks block_func conv_activation n_filters pooling_func
           include_top classes numerical_names output_activation)"

section \<open>Observations and reference notions\<close>

text \<open>The \<open>strides\<close> arguments of the 3D convolutions among some layers, in order.\<close>

fun conv_strides :: "layer list \<Rightarrow> arg option list" where
  "conv_strides [] = []"
| "conv_strides (ComplexConv3D _ _ s _ # ls) = s # conv_strides ls"
| "conv_strides (_ # ls) = conv_strides ls"

text \<open>
  The shortcut of a block output: the second operand of the \<open>add\<close> layer under the final
  activation.
\<close>

fun shortcut_of :: "tensor \<Rightarrow> tensor option" where
  "shortcut_of (Apply (LayerActivation _ _) [Apply (Add _) [main_path, shortcut]]) = Some shortcut"
| "shortcut_of _ = None"

text \<open>The lowercase letters, for the reading of ``the \<open>(b+1)\<close>-th lowercase letter''.\<close>

definition lowercase_letters :: string where
  "lowercase_letters = ''abcdefghijklmnopqrstuvwxyz''"
















text \<open>Example arguments: a channels-last framework in which every tensor has rank 2.\<close>

definition channels_last_env :: env where
  "channels_last_env = \<lparr>image_data_format = lit ''channels_last'', ndim = (\<lambda>_. 2)\<rparr>"

text \<open>
  A block function that adds no layer, to stand for the absent 2D builders where only the
  arguments of the calls matter.
\<close>

definition plain_block :: block_func where
  "plain_block filters stage block numerical_name activation =
     Inr (\<lambda>inputs created_layers. (inputs, created_layers))"

definition plain_blocks_2d :: blocks_2d where
  "plain_blocks_2d = \<lparr>basic_2d = plain_block, bottleneck_2d = plain_block\<rparr>"




text \<open>The names and filter counts of the 3D convolutions among some layers, in order.\<close>

fun conv_filters :: "layer list \<Rightarrow> (pystr \<times> int) list" where
  "conv_filters [] = []"
| "conv_filters (ComplexConv3D filters _ _ name # ls) = (name, filters) # conv_filters ls"
| "conv_filters (_ # ls) = conv_filters ls"

section \<open>Layer names\<close>

































subsection \<open>The names depend on the configuration only\<close>







subsection \<open>The names of a successful construction\<close>







section \<open>Calls of the block function\<close>

lemma create_calls: "calls (snd (create l xs st)) = calls st"
  by (simp add: create_def activate_def call_def layer_activation_def)

lemma block_loop_calls:
  assumes "\<forall>c\<in>set (calls st). P c"
    and "\<And>b. b \<in> set ids \<Longrightarrow>
           P \<lparr>arg_filters = nf, arg_stage = int s, arg_block = b,
              arg_numerical_name = (0 < b \<and> s < length nn \<and> nn ! s), arg_activation = act\<rparr>"
  shows "\<forall>c\<in>set (calls (snd (block_loop bf act nn nf s ids x st))). P c"
  using assms
proof (induction ids arbitrary: x st)
  case Nil
  then show ?case by simp
next
  case (Cons b rest)
  show ?case
  proof (cases "0 < b \<and> \<not> s < length nn")
    case True
    with Cons.prems(1) show ?thesis by (simp add: py_index_def)
  next
    case False
    define c where "c = \<lparr>arg_filters = nf, arg_stage = int s, arg_block = b,
              arg_numerical_name = (0 < b \<and> s < length nn \<and> nn ! s), arg_activation = act\<rparr>"
    define st1 where "st1 = st\<lparr>calls := calls st @ [c]\<rparr>"
    have idx: "(if b > 0 then py_index nn s else Inr False) = Inr (0 < b \<and> s < length nn \<and> nn ! s)"
      using False by (auto simp: py_index_def)
    have P1: "\<forall>c\<in>set (calls st1). P c"
      using Cons.prems by (simp add: st1_def c_def)
    show ?thesis
    proof (cases "bf nf (int s) b (0 < b \<and> s < length nn \<and> nn ! s) act")
      case (Inl err)
      with P1 show ?thesis by (simp add: idx Let_def st1_def c_def)
    next
      case (Inr f)
      obtain x' ls' where r: "f x (created st) = (x', ls')" by (cases "f x (created st)")
      have "\<forall>c\<in>set (calls (st1\<lparr>created := ls'\<rparr>)). P c" using P1 by simp
      then have "\<forall>c\<in>set (calls (snd (block_loop bf act nn nf s rest x' (st1\<lparr>created := ls'\<rparr>)))). P c"
        using Cons.prems(2) by (intro Cons.IH) auto
      then show ?thesis using Inr r by (simp add: idx Let_def st1_def c_def)
    qed
  qed
qed

lemma stage_loop_calls:
  assumes "\<forall>c\<in>set (calls st). P c"
    and "\<And>k b. k < length nb \<Longrightarrow> b \<in> set (py_range (nb ! k)) \<Longrightarrow>
           P \<lparr>arg_filters = nf * 2 ^ k, arg_stage = int (s + k), arg_block = b,
              arg_numerical_name = (0 < b \<and> s + k < length nn \<and> nn ! (s + k)),
              arg_activation = act\<rparr>"
  shows "\<forall>c\<in>set (calls (snd (stage_loop bf act nn s nf nb x outs st))). P c"
  using assms
proof (induction nb arbitrary: s nf x outs st)
  case Nil
  then show ?case by simp
next
  case (Cons iterations rest)
  have blk: "\<forall>c\<in>set (calls (snd (block_loop bf act nn nf s (py_range iterations) x st))). P c"
  proof (rule block_loop_calls[OF Cons.prems(1)])
    fix b assume "b \<in> set (py_range iterations)"
    with Cons.prems(2)[of 0 b] show "P \<lparr>arg_filters = nf, arg_stage = int s, arg_block = b,
              arg_numerical_name = (0 < b \<and> s < length nn \<and> nn ! s), arg_activation = act\<rparr>"
      by simp
  qed
  obtain r st' where loop: "block_loop bf act nn nf s (py_range iterations) x st = (r, st')"
    by (cases "block_loop bf act nn nf s (py_range iterations) x st")
  show ?case
  proof (cases r)
    case (Inl err)
    with blk loop show ?thesis by simp
  next
    case (Inr x')
    have "\<forall>c\<in>set (calls (snd (stage_loop bf act nn (Suc s) (nf * 2) rest x' (outs @ [x']) st'))). P c"
    proof (rule Cons.IH)
      from blk loop show "\<forall>c\<in>set (calls st'). P c" by simp
    next
      fix k b assume "k < length rest" and "b \<in> set (py_range (rest ! k))"
      with Cons.prems(2)[of "Suc k" b]
      show "P \<lparr>arg_filters = nf * 2 * 2 ^ k, arg_stage = int (Suc s + k), arg_block = b,
              arg_numerical_name = (0 < b \<and> Suc s + k < length nn \<and> nn ! (Suc s + k)),
              arg_activation = act\<rparr>"
        by (simp add: mult.assoc)
    qed
    with loop Inr show ?thesis by simp
  qed
qed

lemma stem_calls: "calls (snd (stem e inputs act nf pf st)) = calls st"
  by (simp add: stem_def Let_def create_def activate_def call_def layer_activation_def split: sum.splits)

lemma classifier_top_calls: "calls (snd (classifier_top e inputs pf classes oa x st)) = calls st"
  by (simp add: classifier_top_def Let_def create_def activate_def call_def layer_activation_def split: sum.splits)

lemma ResNet2D_calls:
  assumes "\<And>k b. k < length nb \<Longrightarrow> b \<in> set (py_range (nb ! k)) \<Longrightarrow>
           P \<lparr>arg_filters = nf * 2 ^ k, arg_stage = int k, arg_block = b,
              arg_numerical_name =
                (0 < b \<and> (case nn of None \<Rightarrow> True | Some ns \<Rightarrow> k < length ns \<and> ns ! k)),
              arg_activation = act\<rparr>"
  shows "\<forall>c\<in>set (calls (snd (ResNet2D e inputs nb bf act nf pf include_top classes nn oa))). P c"
proof -
  define ns where "ns = (case nn of None \<Rightarrow> replicate (length nb) True | Some ns \<Rightarrow> ns)"
  have step: "P \<lparr>arg_filters = nf * 2 ^ k, arg_stage = int (0 + k), arg_block = b,
              arg_numerical_name = (0 < b \<and> 0 + k < length ns \<and> ns ! (0 + k)),
              arg_activation = act\<rparr>"
    if "k < length nb" and "b \<in> set (py_range (nb ! k))" for k b
    using assms[OF that] that(1) by (cases nn) (simp_all add: ns_def)
  obtain r0 st0 where stem: "stem e inputs act nf pf \<lparr>created = [], calls = []\<rparr> = (r0, st0)"
    by (cases "stem e inputs act nf pf \<lparr>created = [], calls = []\<rparr>")
  with stem_calls[of e inputs act nf pf "\<lparr>created = [], calls = []\<rparr>"]
  have c0: "\<forall>c\<in>set (calls st0). P c" by simp
  show ?thesis
  proof (cases r0)
    case (Inl err)
    with stem c0 show ?thesis by (simp add: ResNet2D_def)
  next
    case (Inr x0)
    obtain r1 st1 where loop: "stage_loop bf act ns 0 nf nb x0 [] st0 = (r1, st1)"
      by (cases "stage_loop bf act ns 0 nf nb x0 [] st0")
    from stage_loop_calls[of st0 P nb nf 0 ns act bf x0 "[]", OF c0 step] loop
    have c1: "\<forall>c\<in>set (calls st1). P c" by simp
    show ?thesis
    proof (cases r1)
      case (Inl err)
      with stem Inr loop c1 show ?thesis
        by (simp add: ResNet2D_def stages_and_top_def ns_def)
    next
      case r1: (Inr p)
      with stem Inr loop c1 show ?thesis
        by (cases p) (simp add: ResNet2D_def stages_and_top_def ns_def classifier_top_calls)
    qed
  qed
qed

text \<open>The filter argument of the block function is determined by the stage.\<close>

lemma block_loop_filters:
  assumes "nf = base * 2 ^ s"
  shows "block_loop (\<lambda>filters stage. bf (base * 2 ^ nat stage) stage) act nn nf s ids x st =
         block_loop bf act nn nf s ids x st"
  using assms
  by (induction ids arbitrary: x st) (auto simp: Let_def split: sum.splits prod.splits)

lemma stage_loop_filters:
  assumes "nf = base * 2 ^ s"
  shows "stage_loop (\<lambda>filters stage. bf (base * 2 ^ nat stage) stage) act nn s nf nb x outs st =
         stage_loop bf act nn s nf nb x outs st"
  using assms
proof (induction nb arbitrary: s nf x outs st)
  case Nil
  then show ?case by simp
next
  case (Cons iterations rest)
  have "nf * 2 = base * 2 ^ (s + 1)" using Cons.prems by simp
  from Cons.IH[OF this] show ?case
    by (auto simp: block_loop_filters[OF Cons.prems] split: sum.splits prod.splits)
qed

section \<open>Properties of the builders\<close>

text \<open>The definitions unfolded to run a construction on given arguments.\<close>

lemmas build_defs =
  ResNet2D_def stem_def stages_and_top_def classifier_top_def with_defaults_def
  basic_3d_def bottleneck_3d_def resolve_block_char_def resolve_stride_def py_chr_def ord_a_def
  py_index_def py_range_def create_def activate_def call_def layer_activation_def Let_def channels_last_env_def channel_axis_def
  startswith_def upt_conv_Cons py_str_def str_nat.simps plain_block_def plain_blocks_2d_def

lemma nth_lowercase_letter: "k < 26 \<Longrightarrow> of_char (lowercase_letters ! k) = (97::nat) + k"
proof -
  have "\<forall>k \<in> set [0..<26]. of_char (lowercase_letters ! k) = (97::nat) + k"
    by (simp add: lowercase_letters_def upt_conv_Cons)
  then show "k < 26 \<Longrightarrow> of_char (lowercase_letters ! k) = (97::nat) + k" by simp
qed

lemma length_complex_prefix: "length (lit ''complex_'') = 8"
  by (simp add: lit_def)

lemma classifier_top_dense:
  assumes "classifier_top e inputs pooling_func classes output_activation x_complex st = (Inr m, st')"
  shows
    "let oa = (case output_activation of None \<Rightarrow> lit ''softmax'' | Some a \<Rightarrow> a);
         fc = (if startswith oa (lit ''complex_'')
               then ComplexDense classes (drop 8 oa) (lit ''fc'' @ py_str classes)
               else Dense classes oa (lit ''fc'' @ py_str classes))
     in (\<exists>x. m = Model inputs (Single (Apply fc [x]))) \<and> created st' \<noteq> [] \<and> last (created st') = fc"
  using assms
  by (auto simp: classifier_top_def Let_def create_def activate_def call_def layer_activation_def length_complex_prefix
      split: if_splits sum.splits prod.splits)




text \<open>
  Claim C2. For a non-negative stage and block index and \<open>stride = None\<close>, the resolved
  stride is 2 exactly when \<open>block = 0\<close> and \<open>stage > 0\<close> and is 1 otherwise; a given stride
  is used unchanged. Both builders pass the resolved value as \<open>strides\<close> to their first
  convolution and, in block 0, to the shortcut convolution.
\<close>

theorem stride_resolution:
  assumes "0 \<le> stage" and "0 \<le> block"
  shows "(resolve_stride None stage block = 2 \<longleftrightarrow> block = 0 \<and> stage > 0) \<and>
         (resolve_stride None stage block = 1 \<longleftrightarrow> \<not> (block = 0 \<and> stage > 0)) \<and>
         resolve_stride (Some s) stage block = s \<and>
         (case basic_3d e filters stage block kernel_size numerical_name None activation of
            Inl err \<Rightarrow> True
          | Inr f \<Rightarrow>
              conv_strides (snd (f inputs [])) =
                [Some (IntV (if block = 0 \<and> stage > 0 then 2 else 1)), None] @
                (if block = 0 then [Some (IntV (if stage > 0 then 2 else 1))] else [])) \<and>
         (case bottleneck_3d e filters stage block kernel_size numerical_name None activation of
            Inl err \<Rightarrow> True
          | Inr f \<Rightarrow>
              conv_strides (snd (f inputs [])) =
                [Some (IntV (if block = 0 \<and> stage > 0 then 2 else 1)), None, Some (TupleV [1, 1])] @
                (if block = 0 then [Some (IntV (if stage > 0 then 2 else 1))] else [])) \<and>
         (case basic_3d e filters stage block kernel_size numerical_name (Some s) activation of
            Inl err \<Rightarrow> True
          | Inr f \<Rightarrow>
              conv_strides (snd (f inputs [])) =
                [Some (IntV s), None] @ (if block = 0 then [Some (IntV s)] else [])) \<and>
         (case bottleneck_3d e filters stage block kernel_size numerical_name (Some s) activation of
            Inl err \<Rightarrow> True
          | Inr f \<Rightarrow>
              conv_strides (snd (f inputs [])) =
                [Some (IntV s), None, Some (TupleV [1, 1])] @
                (if block = 0 then [Some (IntV s)] else []))"
  using assms
  by (auto simp: resolve_stride_def basic_3d_def bottleneck_3d_def Let_def call_def layer_activation_def
      split: sum.splits)

theorem stride_resolution_witness:
  "resolve_stride None 1 0 = 2 \<and> resolve_stride None 0 0 = 1 \<and> resolve_stride None 1 1 = 1 \<and>
   resolve_stride (Some 3) 1 0 = 3 \<and>
   (\<exists>f. basic_3d channels_last_env 64 1 0 (IntV 3) False None (lit ''crelu'') = Inr f \<and>
        conv_strides (snd (f (Input []) [])) = [Some (IntV 2), None, Some (IntV 2)])"
  using stride_resolution[where stage = 1 and block = 0 and s = 3 and e = channels_last_env
      and filters = 64 and kernel_size = "IntV 3" and numerical_name = False
      and activation = "lit ''crelu''" and inputs = "Input []"]
    stride_resolution[where stage = 0 and block = 0]
    stride_resolution[where stage = 1 and block = 1]
  by (simp add: resolve_block_char_def basic_3d_def py_chr_def ord_a_def Let_def call_def layer_activation_def
      resolve_stride_def)

text \<open>
  Claim C3. In a block built by either builder, the shortcut operand of the \<open>add\<close> layer
  is a projection of the block input (a convolution with kernel \<open>(1, 1)\<close> and the resolved
  stride, then a normalization) if the block index is 0, and is the block input itself
  otherwise; the two extra layers are created only in block 0.
\<close>

theorem shortcut_projection_iff_first_block:
  assumes "resolve_block_char block numerical_name = Inr block_char"
  shows "\<exists>f g.
     basic_3d e filters stage block kernel_size numerical_name stride activation = Inr f \<and>
     bottleneck_3d e filters stage block kernel_size numerical_name stride activation = Inr g \<and>
     shortcut_of (fst (f inputs ls)) =
       Some (if block = 0 then
               Apply (ComplexBatchNormalization (channel_axis e)
                       (lit ''bn'' @ py_str (stage + 2) @ block_char @ lit ''_branch1''))
                 [Apply (ComplexConv3D filters (TupleV [1, 1])
                          (Some (IntV (resolve_stride stride stage block)))
                          (lit ''res'' @ py_str (stage + 2) @ block_char @ lit ''_branch1''))
                    [inputs]]
             else inputs) \<and>
     shortcut_of (fst (g inputs ls)) =
       Some (if block = 0 then
               Apply (ComplexBatchNormalization (channel_axis e)
                       (lit ''bn'' @ py_str (stage + 2) @ block_char @ lit ''_branch1''))
                 [Apply (ComplexConv3D (filters * 4) (TupleV [1, 1])
                          (Some (IntV (resolve_stride stride stage block)))
                          (lit ''res'' @ py_str (stage + 2) @ block_char @ lit ''_branch1''))
                    [inputs]]
             else inputs) \<and>
     (shortcut_of (fst (f inputs ls)) = Some inputs \<longleftrightarrow> block \<noteq> 0) \<and>
     (shortcut_of (fst (g inputs ls)) = Some inputs \<longleftrightarrow> block \<noteq> 0) \<and>
     length (snd (f inputs ls)) = length ls + (if block = 0 then 11 else 9) \<and>
     length (snd (g inputs ls)) = length ls + (if block = 0 then 13 else 11)"
proof -
  have neq: "Apply l [Apply l' [x]] \<noteq> x" for l l' x
  proof
    assume "Apply l [Apply l' [x]] = x"
    then have "size (Apply l [Apply l' [x]]) = size x" by simp
    then show False by simp
  qed
  show ?thesis
    using assms by (simp add: basic_3d_def bottleneck_3d_def Let_def call_def layer_activation_def neq)
qed

theorem shortcut_projection_iff_first_block_witness:
  "resolve_block_char 0 False = Inr (lit ''a'') \<and> resolve_block_char 1 False = Inr (lit ''b'') \<and>
   (\<exists>f. basic_3d channels_last_env 64 1 0 (IntV 3) False None (lit ''crelu'') = Inr f \<and>
        shortcut_of (fst (f (Input []) [])) =
          Some (Apply (ComplexBatchNormalization (- 1) (lit ''bn3a_branch1''))
                 [Apply (ComplexConv3D 64 (TupleV [1, 1]) (Some (IntV 2)) (lit ''res3a_branch1''))
                    [Input []]])) \<and>
   (\<exists>g. bottleneck_3d channels_last_env 64 1 1 (IntV 3) False None (lit ''crelu'') = Inr g \<and>
        shortcut_of (fst (g (Input []) [])) = Some (Input []))"
proof -
  have a: "resolve_block_char 0 False = Inr (lit ''a'')"
    and b: "resolve_block_char 1 False = Inr (lit ''b'')"
    by (simp_all add: resolve_block_char_def py_chr_def ord_a_def lit_def)
  from shortcut_projection_iff_first_block[OF a, where e = channels_last_env and filters = 64
      and stage = 1 and kernel_size = "IntV 3" and stride = None and activation = "lit ''crelu''"
      and inputs = "Input []" and ls = "[]"]
    shortcut_projection_iff_first_block[OF b, where e = channels_last_env and filters = 64
      and stage = 1 and kernel_size = "IntV 3" and stride = None and activation = "lit ''crelu''"
      and inputs = "Input []" and ls = "[]"]
    a b
  show ?thesis
    by (auto simp: channels_last_env_def channel_axis_def resolve_stride_def py_str_def
        str_nat.simps lit_def)
qed

text \<open>
  Claim C4. In every construction the filter count handed to the block function for a
  block of stage \<open>s\<close> is \<open>n_filters * 2 ^ s\<close>: for every block function, the construction
  is the same as with the block function that puts \<open>n_filters * 2 ^ stage\<close> in place of
  the filter count it receives; the recorded arguments of the calls agree.
\<close>

theorem stage_filters_double:
  "ResNet2D e inputs num_blocks block_func activation n_filters pooling_func include_top classes
       numerical_names output_activation =
     ResNet2D e inputs num_blocks
       (\<lambda>filters stage. block_func (n_filters * 2 ^ nat stage) stage)
       activation n_filters pooling_func include_top classes numerical_names output_activation \<and>
   (\<forall>c\<in>set (calls (snd (ResNet2D e inputs num_blocks block_func activation n_filters pooling_func
       include_top classes numerical_names output_activation))).
     0 \<le> arg_stage c \<and> arg_filters c = n_filters * 2 ^ nat (arg_stage c))"
proof
  have "stage_loop (\<lambda>filters stage. block_func (n_filters * 2 ^ nat stage) stage) activation nn 0
          n_filters num_blocks x outs st =
        stage_loop block_func activation nn 0 n_filters num_blocks x outs st" for nn x outs st
    by (rule stage_loop_filters) simp
  then have st_eq: "stages_and_top e inputs num_blocks
          (\<lambda>filters stage. block_func (n_filters * 2 ^ nat stage) stage) activation n_filters
          pooling_func include_top classes nn output_activation x st =
        stages_and_top e inputs num_blocks block_func activation n_filters
          pooling_func include_top classes nn output_activation x st" for nn x st
    by (simp add: stages_and_top_def split: prod.splits sum.splits)
  show "ResNet2D e inputs num_blocks block_func activation n_filters pooling_func include_top
       classes numerical_names output_activation =
     ResNet2D e inputs num_blocks
       (\<lambda>filters stage. block_func (n_filters * 2 ^ nat stage) stage)
       activation n_filters pooling_func include_top classes numerical_names output_activation"
    by (simp add: ResNet2D_def st_eq split: prod.splits sum.splits)
  show "\<forall>c\<in>set (calls (snd (ResNet2D e inputs num_blocks block_func activation n_filters pooling_func
       include_top classes numerical_names output_activation))).
     0 \<le> arg_stage c \<and> arg_filters c = n_filters * 2 ^ nat (arg_stage c)"
    by (rule ResNet2D_calls[where P = "\<lambda>c. 0 \<le> arg_stage c \<and>
        arg_filters c = n_filters * 2 ^ nat (arg_stage c)"]) simp
qed

theorem stage_filters_double_witness:
  "ResNet2D channels_last_env (Input []) [2, 1, 2]
      (with_defaults (basic_3d channels_last_env)) (lit ''crelu'') 64
      [lit ''max'', lit ''global_average''] False 0 None None =
   ResNet2D channels_last_env (Input []) [2, 1, 2]
      (\<lambda>filters stage. with_defaults (basic_3d channels_last_env) (64 * 2 ^ nat stage) stage)
      (lit ''crelu'') 64 [lit ''max'', lit ''global_average''] False 0 None None \<and>
   conv_filters (created (snd (ResNet2D channels_last_env (Input []) [2, 1, 2]
        (with_defaults (basic_3d channels_last_env)) (lit ''crelu'') 64
        [lit ''max'', lit ''global_average''] False 0 None None))) =
   [(lit ''res2a_branch2a'', 64), (lit ''res2a_branch2b'', 64), (lit ''res2a_branch1'', 64),
    (lit ''res2b1_branch2a'', 64), (lit ''res2b1_branch2b'', 64),
    (lit ''res3a_branch2a'', 128), (lit ''res3a_branch2b'', 128), (lit ''res3a_branch1'', 128),
    (lit ''res4a_branch2a'', 256), (lit ''res4a_branch2b'', 256), (lit ''res4a_branch1'', 256),
    (lit ''res4b1_branch2a'', 256), (lit ''res4b1_branch2b'', 256)] \<and>
   map (\<lambda>c. (arg_stage c, arg_block c, arg_filters c))
     (calls (snd (ResNet2D channels_last_env (Input []) [2, 1, 2]
        (with_defaults (basic_3d channels_last_env)) (lit ''crelu'') 64
        [lit ''max'', lit ''global_average''] False 0 None None))) =
   [(0, 0, 64), (0, 1, 64), (1, 0, 128), (2, 0, 256), (2, 1, 256)]"
proof -
  have convs: "conv_filters (created (snd (ResNet2D channels_last_env (Input []) [2, 1, 2]
        (with_defaults (basic_3d channels_last_env)) (lit ''crelu'') 64
        [lit ''max'', lit ''global_average''] False 0 None None))) =
   [(lit ''res2a_branch2a'', 64), (lit ''res2a_branch2b'', 64), (lit ''res2a_branch1'', 64),
    (lit ''res2b1_branch2a'', 64), (lit ''res2b1_branch2b'', 64),
    (lit ''res3a_branch2a'', 128), (lit ''res3a_branch2b'', 128), (lit ''res3a_branch1'', 128),
    (lit ''res4a_branch2a'', 256), (lit ''res4a_branch2b'', 256), (lit ''res4a_branch1'', 256),
    (lit ''res4b1_branch2a'', 256), (lit ''res4b1_branch2b'', 256)]"
    by (simp add: build_defs lit_def)
  have log: "map (\<lambda>c. (arg_stage c, arg_block c, arg_filters c))
     (calls (snd (ResNet2D channels_last_env (Input []) [2, 1, 2]
        (with_defaults (basic_3d channels_last_env)) (lit ''crelu'') 64
        [lit ''max'', lit ''global_average''] False 0 None None))) =
   [(0, 0, 64), (0, 1, 64), (1, 0, 128), (2, 0, 256), (2, 1, 256)]"
    by (simp add: build_defs)
  note T = stage_filters_double[of channels_last_env "Input []" "[2, 1, 2]"
      "with_defaults (basic_3d channels_last_env)" "lit ''crelu''" 64
      "[lit ''max'', lit ''global_average'']" False 0 None None]
  show ?thesis
    by (intro conjI) (rule T[THEN conjunct1], rule convs, rule log)
qed




text \<open>
  Claim C6, as the code has it. With \<open>numerical_name\<close> false the block character is the
  \<open>(b+1)\<close>-th lowercase letter for block indices \<open>1 \<le> b \<le> 25\<close>; with \<open>numerical_name\<close>
  true it is \<open>b\<close> followed by the decimal block index for every \<open>b \<ge> 1\<close>; block index 0
  gives \<open>a\<close> for either flag. From block index 26 on, with \<open>numerical_name\<close> false, the
  result is no lowercase letter (\<open>{\<close> for \<open>b = 26\<close>).
\<close>

theorem block_char_naming:
  "(1 \<le> b \<and> b \<le> 25 \<longrightarrow>
      resolve_block_char b False = Inr [of_char (lowercase_letters ! nat b)]) \<and>
   (1 \<le> b \<longrightarrow> resolve_block_char b True = Inr (lit ''b'' @ py_str b)) \<and>
   resolve_block_char 0 numerical_name = Inr (lit ''a'') \<and>
   (26 \<le> b \<longrightarrow>
      (\<forall>c\<in>set lowercase_letters. resolve_block_char b False \<noteq> Inr [of_char c]))"
proof -
  have letters: "\<forall>c\<in>set lowercase_letters. of_char c \<le> (122::nat)"
    by (simp add: lowercase_letters_def)
  have "resolve_block_char b False \<noteq> Inr [of_char c]"
    if "26 \<le> b" and "c \<in> set lowercase_letters" for c
  proof
    assume "resolve_block_char b False = Inr [of_char c]"
    with that(1) have "(of_char c :: nat) = nat (97 + b)"
      by (auto simp: resolve_block_char_def ord_a_def py_chr_def split: if_splits)
    with letters that show False by auto
  qed
  then show ?thesis
    using nth_lowercase_letter[of "nat b"]
    by (auto simp: resolve_block_char_def ord_a_def py_chr_def nat_add_distrib lit_def)
qed

theorem block_char_naming_witness:
  "resolve_block_char 1 False = Inr (lit ''b'') \<and> resolve_block_char 25 False = Inr (lit ''z'') \<and>
   resolve_block_char 12 True = Inr (lit ''b12'') \<and> resolve_block_char 0 True = Inr (lit ''a'') \<and>
   resolve_block_char 26 False \<noteq> Inr (lit ''z'')"
  using block_char_naming[of 1 True] block_char_naming[of 25 True] block_char_naming[of 12 True]
    block_char_naming[of 26 True]
  by (simp add: lowercase_letters_def lit_def py_str_def str_nat.simps)

theorem block_char_beyond_alphabet_counterexample:
  "resolve_block_char 26 False = Inr (lit ''{'') \<and> CHR ''{'' \<notin> set lowercase_letters"
  by (simp add: resolve_block_char_def ord_a_def py_chr_def lit_def lowercase_letters_def)



text \<open>
  Claim C9. When a construction with \<open>include_top\<close> true succeeds, the output activation
  is \<open>softmax\<close> if none was given; the last layer created, whose output is the model
  output, is a complex dense layer with the prefix \<open>complex_\<close> removed from the
  activation name if the activation name starts with \<open>complex_\<close>, and a standard dense
  layer with the activation name unchanged otherwise; in both cases it has \<open>classes\<close> units
  and the name \<open>fc{classes}\<close>.
\<close>

theorem top_dense_layer:
  assumes "ResNet2D e inputs num_blocks block_func activation n_filters pooling_func True classes
             numerical_names output_activation = (Inr m, st)"
  shows
    "let oa = (case output_activation of None \<Rightarrow> lit ''softmax'' | Some a \<Rightarrow> a);
         fc = (if startswith oa (lit ''complex_'')
               then ComplexDense classes (drop 8 oa) (lit ''fc'' @ py_str classes)
               else Dense classes oa (lit ''fc'' @ py_str classes))
     in (\<exists>x. m = Model inputs (Single (Apply fc [x]))) \<and> created st \<noteq> [] \<and> last (created st) = fc"
proof -
  from assms obtain x st0 where
    "classifier_top e inputs pooling_func classes output_activation x st0 = (Inr m, st)"
    by (auto simp: ResNet2D_def stages_and_top_def Let_def split: sum.splits prod.splits)
  then show ?thesis by (rule classifier_top_dense)
qed

theorem top_dense_layer_witness:
  "(\<exists>m. fst (ResNet2D channels_last_env (Input []) [1] (with_defaults (basic_3d channels_last_env))
            (lit ''crelu'') 64 [lit ''max'', lit ''global_average''] True 10 None None) = Inr m) \<and>
   last (created (snd (ResNet2D channels_last_env (Input []) [1]
            (with_defaults (basic_3d channels_last_env))
            (lit ''crelu'') 64 [lit ''max'', lit ''global_average''] True 10 None None))) =
     Dense 10 (lit ''softmax'') (lit ''fc10'') \<and>
   (\<exists>m. fst (ResNet2D channels_last_env (Input []) [1] (with_defaults (basic_3d channels_last_env))
            (lit ''crelu'') 64 [lit ''max'', lit ''global_average''] True 10 None
            (Some (lit ''complex_sigmoid''))) = Inr m) \<and>
   last (created (snd (ResNet2D channels_last_env (Input []) [1]
            (with_defaults (basic_3d channels_last_env))
            (lit ''crelu'') 64 [lit ''max'', lit ''global_average''] True 10 None
            (Some (lit ''complex_sigmoid''))))) =
     ComplexDense 10 (lit ''sigmoid'') (lit ''fc10'')"
proof -
  obtain m1 st1 where r1: "ResNet2D channels_last_env (Input []) [1]
      (with_defaults (basic_3d channels_last_env)) (lit ''crelu'') 64
      [lit ''max'', lit ''global_average''] True 10 None None = (Inr m1, st1)"
    by (simp add: build_defs lit_def)
  obtain m2 st2 where r2: "ResNet2D channels_last_env (Input []) [1]
      (with_defaults (basic_3d channels_last_env)) (lit ''crelu'') 64
      [lit ''max'', lit ''global_average''] True 10 None (Some (lit ''complex_sigmoid''))
      = (Inr m2, st2)"
    by (simp add: build_defs lit_def)
  from top_dense_layer[OF r1] top_dense_layer[OF r2] show ?thesis
    unfolding r1 r2 by (simp add: Let_def startswith_def lit_def py_str_def str_nat.simps)
qed


text \<open>
  Claim C8, as the code has it. The presets of depth 101, 152 and 200 call the block
  function with \<open>numerical_name\<close> true exactly for the blocks after the first of the two
  interior stages (stage indices 1 and 2); the preset of depth 50 never passes
  \<open>numerical_name\<close> true; the presets of depth 18 and 34 do not fix the flags but forward
  the caller's list, and without one every block after the first of every stage is called
  with \<open>numerical_name\<close> true. A preset called without \<open>block_func\<close> uses the basic
  builder at depths 18 and 34 and the bottleneck builder at depths 50, 101, 152 and 200.
\<close>

theorem preset_numerical_flags:
  "(\<forall>c\<in>set (calls (snd (ResNet2D101 lib e inputs num_blocks block_func conv_activation n_filters
        pooling_func include_top classes numerical_names output_activation))).
      arg_numerical_name c = (0 < arg_block c \<and> (arg_stage c = 1 \<or> arg_stage c = 2))) \<and>
   (\<forall>c\<in>set (calls (snd (ResNet2D152 lib e inputs num_blocks block_func conv_activation n_filters
        pooling_func include_top classes numerical_names output_activation))).
      arg_numerical_name c = (0 < arg_block c \<and> (arg_stage c = 1 \<or> arg_stage c = 2))) \<and>
   (\<forall>c\<in>set (calls (snd (ResNet2D200 lib e inputs num_blocks block_func conv_activation n_filters
        pooling_func include_top classes numerical_names output_activation))).
      arg_numerical_name c = (0 < arg_block c \<and> (arg_stage c = 1 \<or> arg_stage c = 2))) \<and>
   (\<forall>c\<in>set (calls (snd (ResNet2D50 lib e inputs num_blocks block_func conv_activation n_filters
        pooling_func include_top classes numerical_names output_activation))).
      arg_numerical_name c = False) \<and>
   (\<forall>c\<in>set (calls (snd (ResNet2D18 lib e inputs num_blocks block_func conv_activation n_filters
        pooling_func include_top classes None output_activation))).
      arg_numerical_name c = (0 < arg_block c)) \<and>
   (\<forall>c\<in>set (calls (snd (ResNet2D34 lib e inputs num_blocks block_func conv_activation n_filters
        pooling_func include_top classes None output_activation))).
      arg_numerical_name c = (0 < arg_block c)) \<and>
   (\<forall>c\<in>set (calls (snd (ResNet2D18 lib e inputs num_blocks block_func conv_activation n_filters
        pooling_func include_top classes (Some flags) output_activation))).
      arg_numerical_name c =
        (0 < arg_block c \<and> nat (arg_stage c) < length flags \<and> flags ! nat (arg_stage c))) \<and>
   (\<forall>c\<in>set (calls (snd (ResNet2D34 lib e inputs num_blocks block_func conv_activation n_filters
        pooling_func include_top classes (Some flags) output_activation))).
      arg_numerical_name c =
        (0 < arg_block c \<and> nat (arg_stage c) < length flags \<and> flags ! nat (arg_stage c))) \<and>
   ResNet2D18 lib e inputs num_blocks None conv_activation n_filters pooling_func include_top
       classes numerical_names output_activation =
     ResNet2D18 lib e inputs num_blocks (Some (basic_2d lib)) conv_activation n_filters
       pooling_func include_top classes numerical_names output_activation \<and>
   ResNet2D34 lib e inputs num_blocks None conv_activation n_filters pooling_func include_top
       classes numerical_names output_activation =
     ResNet2D34 lib e inputs num_blocks (Some (basic_2d lib)) conv_activation n_filters
       pooling_func include_top classes numerical_names output_activation \<and>
   ResNet2D50 lib e inputs num_blocks None conv_activation n_filters pooling_func include_top
       classes numerical_names output_activation =
     ResNet2D50 lib e inputs num_blocks (Some (bottleneck_2d lib)) conv_activation n_filters
       pooling_func include_top classes numerical_names output_activation \<and>
   ResNet2D101 lib e inputs num_blocks None conv_activation n_filters pooling_func include_top
       classes numerical_names output_activation =
     ResNet2D101 lib e inputs num_blocks (Some (bottleneck_2d lib)) conv_activation n_filters
       pooling_func include_top classes numerical_names output_activation \<and>
   ResNet2D152 lib e inputs num_blocks None conv_activation n_filters pooling_func include_top
       classes numerical_names output_activation =
     ResNet2D152 lib e inputs num_blocks (Some (bottleneck_2d lib)) conv_activation n_filters
       pooling_func include_top classes numerical_names output_activation \<and>
   ResNet2D200 lib e inputs num_blocks None conv_activation n_filters pooling_func include_top
       classes numerical_names output_activation =
     ResNet2D200 lib e inputs num_blocks (Some (bottleneck_2d lib)) conv_activation n_filters
       pooling_func include_top classes numerical_names output_activation"
proof -
  have interior: "\<forall>c\<in>set (calls (snd (ResNet2D e inputs nb bf conv_activation n_filters
        pooling_func include_top classes (Some [False, True, True, False]) output_activation))).
      arg_numerical_name c = (0 < arg_block c \<and> (arg_stage c = 1 \<or> arg_stage c = 2))" for nb bf
    by (rule ResNet2D_calls[where P = "\<lambda>c. arg_numerical_name c =
          (0 < arg_block c \<and> (arg_stage c = 1 \<or> arg_stage c = 2))"])
      (auto simp: nth_Cons' split: if_splits)
  have letters: "\<forall>c\<in>set (calls (snd (ResNet2D e inputs nb bf conv_activation n_filters
        pooling_func include_top classes (Some [False, False, False, False]) output_activation))).
      arg_numerical_name c = False" for nb bf
    by (rule ResNet2D_calls[where P = "\<lambda>c. arg_numerical_name c = False"])
      (auto simp: nth_Cons' split: if_splits)
  have numbers: "\<forall>c\<in>set (calls (snd (ResNet2D e inputs nb bf conv_activation n_filters
        pooling_func include_top classes None output_activation))).
      arg_numerical_name c = (0 < arg_block c)" for nb bf
    by (rule ResNet2D_calls[where P = "\<lambda>c. arg_numerical_name c = (0 < arg_block c)"]) simp
  have forwarded: "\<forall>c\<in>set (calls (snd (ResNet2D e inputs nb bf conv_activation n_filters
        pooling_func include_top classes (Some flags) output_activation))).
      arg_numerical_name c =
        (0 < arg_block c \<and> nat (arg_stage c) < length flags \<and> flags ! nat (arg_stage c))" for nb bf
    by (rule ResNet2D_calls[where P = "\<lambda>c. arg_numerical_name c =
          (0 < arg_block c \<and> nat (arg_stage c) < length flags \<and> flags ! nat (arg_stage c))"]) simp
  show ?thesis
    unfolding ResNet2D18_def ResNet2D34_def ResNet2D50_def ResNet2D101_def ResNet2D152_def
      ResNet2D200_def Let_def
    by (intro conjI interior letters numbers forwarded) simp_all
qed

theorem preset_numerical_flags_witness:
  "\<lparr>arg_filters = 256, arg_stage = 2, arg_block = 22, arg_numerical_name = True,
     arg_activation = lit ''crelu''\<rparr> \<in>
     set (calls (snd (ResNet2D101 plain_blocks_2d channels_last_env (Input []) None None
       (lit ''crelu'') 64 [lit ''max'', lit ''global_average''] True 1000 None
       (Some (lit ''sigmoid''))))) \<and>
   \<lparr>arg_filters = 512, arg_stage = 3, arg_block = 2, arg_numerical_name = False,
     arg_activation = lit ''crelu''\<rparr> \<in>
     set (calls (snd (ResNet2D101 plain_blocks_2d channels_last_env (Input []) None None
       (lit ''crelu'') 64 [lit ''max'', lit ''global_average''] True 1000 None
       (Some (lit ''sigmoid'')))))"
  using preset_numerical_flags[where lib = plain_blocks_2d and e = channels_last_env
      and inputs = "Input []" and num_blocks = None and block_func = None
      and conv_activation = "lit ''crelu''" and n_filters = 64
      and pooling_func = "[lit ''max'', lit ''global_average'']" and include_top = True
      and classes = 1000 and numerical_names = None and output_activation = "Some (lit ''sigmoid'')"]
  by (simp add: ResNet2D101_def build_defs)

theorem preset_flags_counterexample:
  "\<lparr>arg_filters = 256, arg_stage = 2, arg_block = 1, arg_numerical_name = False,
     arg_activation = lit ''crelu''\<rparr> \<in>
     set (calls (snd (ResNet2D50 plain_blocks_2d channels_last_env (Input []) None None
       (lit ''crelu'') 64 [lit ''max'', lit ''global_average''] True 1000 None
       (Some (lit ''sigmoid''))))) \<and>
   \<lparr>arg_filters = 64, arg_stage = 0, arg_block = 1, arg_numerical_name = True,
     arg_activation = lit ''crelu''\<rparr> \<in>
     set (calls (snd (ResNet2D18 plain_blocks_2d channels_last_env (Input []) None None
       (lit ''crelu'') 64 [lit ''max'', lit ''global_average''] True 1000 None
       (Some (lit ''sigmoid'')))))"
  by (simp add: ResNet2D50_def ResNet2D18_def build_defs)

text \<open>
  Claim C10. The presets of depth 50, 101, 152 and 200 pass their own flag list to the base
  assembler (all false at depth 50; false, true, true, false at depths 101, 152 and 200),
  so their result is the same for every value of the \<open>numerical_names\<close> argument.
\<close>

theorem presets_ignore_numerical_names:
  "ResNet2D50 lib e inputs num_blocks block_func conv_activation n_filters pooling_func include_top
       classes numerical_names output_activation =
     ResNet2D e inputs (case num_blocks of None \<Rightarrow> [3, 4, 6, 3] | Some nb \<Rightarrow> nb)
       (case block_func of None \<Rightarrow> bottleneck_2d lib | Some f \<Rightarrow> f)
       conv_activation n_filters pooling_func include_top classes
       (Some [False, False, False, False]) output_activation \<and>
   ResNet2D101 lib e inputs num_blocks block_func conv_activation n_filters pooling_func include_top
       classes numerical_names output_activation =
     ResNet2D e inputs (case num_blocks of None \<Rightarrow> [3, 4, 23, 3] | Some nb \<Rightarrow> nb)
       (case block_func of None \<Rightarrow> bottleneck_2d lib | Some f \<Rightarrow> f)
       conv_activation n_filters pooling_func include_top classes
       (Some [False, True, True, False]) output_activation \<and>
   ResNet2D152 lib e inputs num_blocks block_func conv_activation n_filters pooling_func include_top
       classes numerical_names output_activation =
     ResNet2D e inputs (case num_blocks of None \<Rightarrow> [3, 8, 36, 3] | Some nb \<Rightarrow> nb)
       (case block_func of None \<Rightarrow> bottleneck_2d lib | Some f \<Rightarrow> f)
       conv_activation n_filters pooling_func include_top classes
       (Some [False, True, True, False]) output_activation \<and>
   ResNet2D200 lib e inputs num_blocks block_func conv_activation n_filters pooling_func include_top
       classes numerical_names output_activation =
     ResNet2D e inputs (case num_blocks of None \<Rightarrow> [3, 24, 36, 3] | Some nb \<Rightarrow> nb)
       (case block_func of None \<Rightarrow> bottleneck_2d lib | Some f \<Rightarrow> f)
       conv_activation n_filters pooling_func include_top classes
       (Some [False, True, True, False]) output_activation \<and>
   ResNet2D50 lib e inputs num_blocks block_func conv_activation n_filters pooling_func include_top
       classes numerical_names output_activation =
     ResNet2D50 lib e inputs num_blocks block_func conv_activation n_filters pooling_func include_top
       classes other_names output_activation \<and>
   ResNet2D101 lib e inputs num_blocks block_func conv_activation n_filters pooling_func include_top
       classes numerical_names output_activation =
     ResNet2D101 lib e inputs num_blocks block_func conv_activation n_filters pooling_func include_top
       classes other_names output_activation \<and>
   ResNet2D152 lib e inputs num_blocks block_func conv_activation n_filters pooling_func include_top
       classes numerical_names output_activation =
     ResNet2D152 lib e inputs num_blocks block_func conv_activation n_filters pooling_func include_top
       classes other_names output_activation \<and>
   ResNet2D200 lib e inputs num_blocks block_func conv_activation n_filters pooling_func include_top
       classes numerical_names output_activation =
     ResNet2D200 lib e inputs num_blocks block_func conv_activation n_filters pooling_func include_top
       classes other_names output_activation"
  by (simp add: ResNet2D50_def ResNet2D101_def ResNet2D152_def ResNet2D200_def Let_def)

end
